theory Spec2Isabelle
  imports Complex_Main
begin

section \<open>LifeLens sentiment service: data model\<close>

text \<open>
  The service is \<^verbatim>\<open>services/sentiment/app/main.py\<close>. A Python \<^verbatim>\<open>str\<close> is a sequence of
  Unicode code points: \<^verbatim>\<open>len\<close> counts code points and a slice cuts between them. Request
  texts are therefore lists of code points. The fixed ASCII strings of the program (labels,
  dictionary keys, error details) are \<open>string\<close>s. Python floats are modelled as exact
  reals: rounding is outside this development.
\<close>

type_synonym pystr = "nat list"

text \<open>A string literal of the program, as code points.\<close>

definition py :: "string \<Rightarrow> pystr" where
  "py s = map of_char s"

text \<open>
  The code points that \<^verbatim>\<open>str.strip()\<close> removes when it is called without an argument
  (CPython's whitespace table, the one behind \<^verbatim>\<open>str.isspace\<close>).
\<close>

definition py_isspace :: "nat \<Rightarrow> bool" where
  "py_isspace c \<longleftrightarrow>
     (9 \<le> c \<and> c \<le> 13) \<or> (28 \<le> c \<and> c \<le> 32) \<or> c = 133 \<or> c = 160 \<or> c = 5760 \<or>
     (8192 \<le> c \<and> c \<le> 8202) \<or> c = 8232 \<or> c = 8233 \<or> c = 8239 \<or> c = 8287 \<or> c = 12288"

text \<open>\<^verbatim>\<open>text.strip()\<close>: leading and trailing whitespace removed.\<close>

definition strip :: "pystr \<Rightarrow> pystr" where
  "strip s = rev (dropWhile py_isspace (rev (dropWhile py_isspace s)))"

text \<open>
  One element of the list the Hugging Face pipeline returns: the dictionary with the keys
  \<^verbatim>\<open>'label'\<close> and \<^verbatim>\<open>'score'\<close>.
\<close>

record prediction =
  pred_label :: string
  pred_score :: real

text \<open>
  The pipeline is an external collaborator: a call either raises (\<open>None\<close>) or returns a
  list of predictions. The module-level handle \<^verbatim>\<open>sentiment_pipeline\<close> is \<open>None\<close> when
  loading failed (lines 30-39), and is passed to every handler explicitly.
\<close>

type_synonym pipeline = "pystr \<Rightarrow> prediction list option"

text \<open>\<^verbatim>\<open>class SentimentResponse(BaseModel)\<close>, lines 45-48.\<close>

record SentimentResponse =
  label :: string
  score :: real
  scores :: "string \<rightharpoonup> real"

text \<open>The dictionaries appended to \<^verbatim>\<open>results\<close> in the batch handler, lines 152-157.\<close>

record batch_entry =
  entry_text :: pystr
  entry_label :: string
  entry_score :: real
  entry_scores :: "string \<rightharpoonup> real"

text \<open>The dictionary the batch handler returns, lines 159-162.\<close>

record batch_response =
  results :: "batch_entry list"
  total_count :: nat

text \<open>The dictionary the health probe returns, lines 53-56.\<close>

record health_response =
  status :: string
  model_loaded :: bool

text \<open>\<^verbatim>\<open>raise HTTPException(status_code=..., detail=...)\<close>.\<close>

datatype http_exception = HTTPException (status_code: nat) (detail: string)

text \<open>
  What the framework answers: the status code of a raised \<^verbatim>\<open>HTTPException\<close>, and 200 for
  a handler that returns.
\<close>

definition http_status :: "http_exception + 'a \<Rightarrow> nat" where
  "http_status r = (case r of Inl e \<Rightarrow> status_code e | Inr _ \<Rightarrow> 200)"

section \<open>The handlers\<close>

text \<open>\<^verbatim>\<open>health_check\<close>, lines 51-56.\<close>

definition health_check :: "pipeline option \<Rightarrow> http_exception + health_response" where
  "health_check sentiment_pipeline =
     Inr \<lparr>status = ''healthy'', model_loaded = (sentiment_pipeline \<noteq> None)\<rparr>"

text \<open>
  The label and score remapping, lines 79-97 of \<^verbatim>\<open>analyze_sentiment\<close>; lines 133-150 of
  \<^verbatim>\<open>analyze_sentiment_batch\<close> repeat the same statements. It yields the final
  \<^verbatim>\<open>label\<close> and \<^verbatim>\<open>scores\<close>. A local variable that shares its name with a
  field of a response is written with a prime.
\<close>

definition remap :: "prediction \<Rightarrow> string \<times> (string \<rightharpoonup> real)" where
  "remap result =
     (let (label', scores') =
        (if pred_label result = ''POSITIVE''
         then (''positive'',
               [''positive'' \<mapsto> pred_score result,
                ''negative'' \<mapsto> 1 - pred_score result,
                ''neutral'' \<mapsto> 0])
         else (''negative'',
               [''positive'' \<mapsto> 1 - pred_score result,
                ''negative'' \<mapsto> pred_score result,
                ''neutral'' \<mapsto> 0]))
      in if pred_score result < 0.6
         then (''neutral'', scores'(''neutral'' \<mapsto> 1 - pred_score result))
         else (label', scores'))"

text \<open>
  The body of the \<^verbatim>\<open>try\<close> block of \<^verbatim>\<open>analyze_sentiment\<close>, lines 67-103. \<open>None\<close> is any
  exception: the pipeline raising, or \<^verbatim>\<open>results[0]\<close> on an empty list.
\<close>

definition analyze_try :: "pipeline \<Rightarrow> pystr \<Rightarrow> SentimentResponse option" where
  "analyze_try sentiment_pipeline request_text =
     (let text = take 512 request_text in
      case sentiment_pipeline text of
        None \<Rightarrow> None
      | Some results' \<Rightarrow>
          (case results' of
             [] \<Rightarrow> None
           | result # _ \<Rightarrow>
               (let (label', scores') = remap result in
                Some \<lparr>label = label', score = pred_score result, scores = scores'\<rparr>)))"

text \<open>\<^verbatim>\<open>analyze_sentiment\<close>, lines 59-107; the argument is \<^verbatim>\<open>request.text\<close>.\<close>

definition analyze_sentiment ::
    "pipeline option \<Rightarrow> pystr \<Rightarrow> http_exception + SentimentResponse" where
  "analyze_sentiment sentiment_pipeline request_text =
     (case sentiment_pipeline of
        None \<Rightarrow> Inl (HTTPException 503 ''Model not loaded'')
      | Some pipe \<Rightarrow>
          if request_text = [] \<or> length (strip request_text) = 0
          then Inl (HTTPException 400 ''Text cannot be empty'')
          else (case analyze_try pipe request_text of
                  None \<Rightarrow> Inl (HTTPException 500 ''Failed to analyze sentiment'')
                | Some response \<Rightarrow> Inr response))"

text \<open>
  The dictionary built for one surviving text of a batch from the first prediction of the
  pipeline, lines 133-157.
\<close>

definition batch_item :: "pystr \<Rightarrow> prediction \<Rightarrow> batch_entry" where
  "batch_item text result =
     (let (label', scores') = remap result in
      \<lparr>entry_text = (if length text > 100 then take 100 text @ py ''...'' else text),
       entry_label = label',
       entry_score = pred_score result,
       entry_scores = scores'\<rparr>)"

text \<open>
  The \<^verbatim>\<open>for\<close> loop of \<^verbatim>\<open>analyze_sentiment_batch\<close>, lines 126-157, with the list
  \<^verbatim>\<open>results\<close> it appends to. \<open>None\<close> is any exception raised on the way.
\<close>

fun batch_loop :: "pipeline \<Rightarrow> pystr list \<Rightarrow> batch_entry list \<Rightarrow> batch_entry list option" where
  "batch_loop sentiment_pipeline [] results' = Some results'"
| "batch_loop sentiment_pipeline (text # rest) results' =
     (if text \<noteq> [] \<and> length (strip text) > 0
      then (let text_truncated = take 512 text in
            case sentiment_pipeline text_truncated of
              None \<Rightarrow> None
            | Some sentiment_results \<Rightarrow>
                (case sentiment_results of
                   [] \<Rightarrow> None
                 | result # _ \<Rightarrow>
                     batch_loop sentiment_pipeline rest (results' @ [batch_item text result])))
      else batch_loop sentiment_pipeline rest results')"

text \<open>\<^verbatim>\<open>analyze_sentiment_batch\<close>, lines 113-166; the argument is \<^verbatim>\<open>request.texts\<close>.\<close>

definition analyze_sentiment_batch ::
    "pipeline option \<Rightarrow> pystr list \<Rightarrow> http_exception + batch_response" where
  "analyze_sentiment_batch sentiment_pipeline texts =
     (case sentiment_pipeline of
        None \<Rightarrow> Inl (HTTPException 503 ''Model not loaded'')
      | Some pipe \<Rightarrow>
          if texts = [] \<or> length texts = 0
          then Inl (HTTPException 400 ''No texts provided'')
          else if length texts > 100
          then Inl (HTTPException 400 ''Maximum 100 texts per batch'')
          else (case batch_loop pipe texts [] of
                  None \<Rightarrow> Inl (HTTPException 500 ''Failed to analyze sentiments'')
                | Some results' \<Rightarrow> Inr \<lparr>results = results', total_count = length results'\<rparr>))"

section \<open>Vocabulary of the specification\<close>

text \<open>A text is blank when it is empty or consists of whitespace only.\<close>

definition blank :: "pystr \<Rightarrow> bool" where
  "blank s = list_all py_isspace s"

text \<open>The class opposite to a label among the two classes of the model.\<close>

definition opposite :: "string \<Rightarrow> string" where
  "opposite l = (if l = ''positive'' then ''negative'' else ''positive'')"

text \<open>
  The sum of the three entries of a score dictionary; \<open>None\<close> when a key is missing, where
  the Python lookup raises \<^verbatim>\<open>KeyError\<close>.
\<close>

definition scores_sum :: "(string \<rightharpoonup> real) \<Rightarrow> real option" where
  "scores_sum s =
     (case (s ''positive'', s ''negative'', s ''neutral'') of
        (Some p, Some n, Some u) \<Rightarrow> Some (p + n + u)
      | _ \<Rightarrow> None)"

text \<open>The answer of the pipeline for a text: its first prediction, when there is one.\<close>

definition first_prediction :: "pipeline \<Rightarrow> pystr \<Rightarrow> prediction option" where
  "first_prediction pipe t =
     (case pipe (take 512 t) of
        None \<Rightarrow> None
      | Some [] \<Rightarrow> None
      | Some (r # _) \<Rightarrow> Some r)"

text \<open>
  A stand-in for the external pipeline, used in the examples: it answers every text with
  the one prediction \<open>r\<close>.
\<close>

definition fixed_pipeline :: "prediction \<Rightarrow> pipeline" where
  "fixed_pipeline r = (\<lambda>_. Some [r])"

section \<open>Auxiliary lemmas\<close>

lemma strip_empty_iff: "length (strip s) = 0 \<longleftrightarrow> blank s"
proof -
  have "dropWhile py_isspace s = [] \<longleftrightarrow> list_all py_isspace s"
    by (simp add: list_all_iff)
  moreover have "strip s = [] \<longleftrightarrow> dropWhile py_isspace s = []"
  proof
    assume "strip s = []"
    then have "dropWhile py_isspace (rev (dropWhile py_isspace s)) = []"
      by (simp add: strip_def)
    then have all: "\<forall>x \<in> set (dropWhile py_isspace s). py_isspace x"
      by simp
    show "dropWhile py_isspace s = []"
    proof (cases "dropWhile py_isspace s")
      case Nil
      then show ?thesis .
    next
      case (Cons a as)
      then have "\<not> py_isspace a"
        using hd_dropWhile [of py_isspace s] by simp
      moreover have "py_isspace a"
        using all Cons by simp
      ultimately show ?thesis by simp
    qed
  next
    assume "dropWhile py_isspace s = []"
    then have "strip s = rev (dropWhile py_isspace (rev []))"
      by (simp only: strip_def)
    then show "strip s = []" by simp
  qed
  ultimately show ?thesis by (simp add: blank_def)
qed

lemma blank_Nil: "blank []"
  by (simp add: blank_def)

lemma rejected_iff_blank: "(s = [] \<or> length (strip s) = 0) \<longleftrightarrow> blank s"
  using strip_empty_iff [of s] blank_Nil by auto

lemma survives_iff_not_blank: "(s \<noteq> [] \<and> length (strip s) > 0) \<longleftrightarrow> \<not> blank s"
  using rejected_iff_blank [of s] by auto

lemma remap_confident:
  assumes "0.6 \<le> pred_score r"
  shows "remap r =
     (if pred_label r = ''POSITIVE''
      then (''positive'',
            [''positive'' \<mapsto> pred_score r, ''negative'' \<mapsto> 1 - pred_score r, ''neutral'' \<mapsto> 0])
      else (''negative'',
            [''positive'' \<mapsto> 1 - pred_score r, ''negative'' \<mapsto> pred_score r, ''neutral'' \<mapsto> 0]))"
  using assms by (simp add: remap_def)

lemma remap_unsure:
  assumes "pred_score r < 0.6"
  shows "remap r =
     (''neutral'',
      if pred_label r = ''POSITIVE''
      then [''positive'' \<mapsto> pred_score r, ''negative'' \<mapsto> 1 - pred_score r,
            ''neutral'' \<mapsto> 1 - pred_score r]
      else [''positive'' \<mapsto> 1 - pred_score r, ''negative'' \<mapsto> pred_score r,
            ''neutral'' \<mapsto> 1 - pred_score r])"
  using assms by (simp add: remap_def)

lemma first_prediction_SomeD:
  assumes "first_prediction pipe t = Some r"
  shows "\<exists>more. pipe (take 512 t) = Some (r # more)"
  using assms by (auto simp: first_prediction_def split: option.splits list.splits)

lemma analyze_sentiment_accepted:
  assumes "\<not> blank t" and "first_prediction pipe t = Some r"
  shows "analyze_sentiment (Some pipe) t =
     Inr \<lparr>label = fst (remap r), score = pred_score r, scores = snd (remap r)\<rparr>"
proof -
  obtain more where "pipe (take 512 t) = Some (r # more)"
    using first_prediction_SomeD [OF assms(2)] by blast
  then have "analyze_try pipe t =
      Some \<lparr>label = fst (remap r), score = pred_score r, scores = snd (remap r)\<rparr>"
    by (simp add: analyze_try_def split_beta)
  moreover have "\<not> (t = [] \<or> length (strip t) = 0)"
    using assms(1) rejected_iff_blank [of t] by simp
  ultimately show ?thesis
    by (simp add: analyze_sentiment_def)
qed

lemma batch_loop_accepted:
  assumes "\<forall>t \<in> set texts. \<not> blank t \<longrightarrow> first_prediction pipe t \<noteq> None"
  shows "batch_loop pipe texts acc =
     Some (acc @ map (\<lambda>t. batch_item t (the (first_prediction pipe t)))
                    (filter (\<lambda>t. \<not> blank t) texts))"
  using assms
proof (induction texts arbitrary: acc)
  case Nil
  then show ?case by simp
next
  case (Cons t texts)
  show ?case
  proof (cases "blank t")
    case True
    then have "\<not> (t \<noteq> [] \<and> length (strip t) > 0)"
      using survives_iff_not_blank [of t] by simp
    then have "batch_loop pipe (t # texts) acc = batch_loop pipe texts acc"
      by auto
    then show ?thesis
      using Cons True by simp
  next
    case False
    then have go: "t \<noteq> [] \<and> length (strip t) > 0"
      using survives_iff_not_blank [of t] by simp
    from Cons.prems False obtain r where r: "first_prediction pipe t = Some r"
      by auto
    then obtain more where "pipe (take 512 t) = Some (r # more)"
      using first_prediction_SomeD by blast
    then have "batch_loop pipe (t # texts) acc = batch_loop pipe texts (acc @ [batch_item t r])"
      using go by simp
    then show ?thesis
      using Cons False r by simp
  qed
qed

lemma batch_accepted:
  assumes "texts \<noteq> []" and "length texts \<le> 100"
    and "\<forall>t \<in> set texts. \<not> blank t \<longrightarrow> first_prediction pipe t \<noteq> None"
  shows "analyze_sentiment_batch (Some pipe) texts =
     Inr \<lparr>results = map (\<lambda>t. batch_item t (the (first_prediction pipe t)))
                        (filter (\<lambda>t. \<not> blank t) texts),
          total_count = length (filter (\<lambda>t. \<not> blank t) texts)\<rparr>"
  using assms batch_loop_accepted [OF assms(3), of "[]"]
  by (simp add: analyze_sentiment_batch_def)

lemma first_prediction_fixed: "first_prediction (fixed_pipeline r) t = Some r"
  by (simp add: first_prediction_def fixed_pipeline_def)

lemma not_blank_good: "\<not> blank (py ''good'')"
  by (simp add: blank_def py_def py_isspace_def)

lemma scores_sum_3:
  "scores_sum [''positive'' \<mapsto> p, ''negative'' \<mapsto> n, ''neutral'' \<mapsto> u] = Some (p + n + u)"
  by (simp add: scores_sum_def)

section \<open>The claims\<close>

text \<open>
  Claim C1. When the model answers with a confidence of at least 0.6, the response of
  \<^verbatim>\<open>analyze_sentiment\<close> carries the label \<^verbatim>\<open>positive\<close> exactly when the raw label is
  \<^verbatim>\<open>POSITIVE\<close> and \<^verbatim>\<open>negative\<close> otherwise; the score of that label is the confidence,
  the score of the opposite class is one minus the confidence, and the neutral score is 0.
  The text is one the handler accepts (not blank) and \<open>result\<close> is the first prediction of
  the pipeline for it.
\<close>

theorem C1_confident_prediction_keeps_class:
  assumes "\<not> blank text" and "first_prediction pipe text = Some result"
    and "0.6 \<le> pred_score result"
  shows "\<exists>response. analyze_sentiment (Some pipe) text = Inr response \<and>
     label response = (if pred_label result = ''POSITIVE'' then ''positive'' else ''negative'') \<and>
     scores response (label response) = Some (pred_score result) \<and>
     scores response (opposite (label response)) = Some (1 - pred_score result) \<and>
     scores response ''neutral'' = Some 0"
  using analyze_sentiment_accepted [OF assms(1,2)] remap_confident [OF assms(3)]
  by (simp add: opposite_def)

theorem C1_confident_prediction_keeps_class_witness:
  "\<not> blank (py ''good'') \<and>
   first_prediction (fixed_pipeline \<lparr>pred_label = ''POSITIVE'', pred_score = 0.95\<rparr>) (py ''good'')
     = Some \<lparr>pred_label = ''POSITIVE'', pred_score = 0.95\<rparr> \<and>
   0.6 \<le> pred_score \<lparr>pred_label = ''POSITIVE'', pred_score = 0.95\<rparr> \<and>
   (\<exists>response.
      analyze_sentiment (Some (fixed_pipeline \<lparr>pred_label = ''POSITIVE'', pred_score = 0.95\<rparr>))
        (py ''good'') = Inr response \<and>
      label response = ''positive'' \<and>
      scores response ''positive'' = Some 0.95 \<and>
      scores response ''negative'' = Some 0.05 \<and>
      scores response ''neutral'' = Some 0)"
proof -
  let ?r = "\<lparr>pred_label = ''POSITIVE'', pred_score = 0.95\<rparr>"
  have h1: "\<not> blank (py ''good'')" by (rule not_blank_good)
  have h2: "first_prediction (fixed_pipeline ?r) (py ''good'') = Some ?r"
    by (rule first_prediction_fixed)
  have h3: "0.6 \<le> pred_score ?r" by simp
  show ?thesis
    using C1_confident_prediction_keeps_class [OF h1 h2 h3] h1 h2 h3
    by (auto simp: opposite_def)
qed

text \<open>
  Claim C2. When the confidence is below 0.6, the label is \<^verbatim>\<open>neutral\<close> whatever the raw
  label is, and the neutral score is one minus the confidence; the \<^verbatim>\<open>score\<close> field and the
  positive and negative scores are those of the first two steps. The example of the
  claim (\<^verbatim>\<open>NEGATIVE\<close> with confidence 0.55) is the instance proved after the theorem.
\<close>

theorem C2_unsure_prediction_is_neutral:
  assumes "\<not> blank text" and "first_prediction pipe text = Some result"
    and "pred_score result < 0.6"
  shows "\<exists>response. analyze_sentiment (Some pipe) text = Inr response \<and>
     label response = ''neutral'' \<and>
     score response = pred_score result \<and>
     scores response ''neutral'' = Some (1 - pred_score result) \<and>
     scores response ''positive'' =
       Some (if pred_label result = ''POSITIVE'' then pred_score result else 1 - pred_score result) \<and>
     scores response ''negative'' =
       Some (if pred_label result = ''POSITIVE'' then 1 - pred_score result else pred_score result)"
  using analyze_sentiment_accepted [OF assms(1,2)] remap_unsure [OF assms(3)]
  by simp

theorem C2_unsure_prediction_is_neutral_witness:
  "\<not> blank (py ''good'') \<and>
   first_prediction (fixed_pipeline \<lparr>pred_label = ''NEGATIVE'', pred_score = 0.55\<rparr>) (py ''good'')
     = Some \<lparr>pred_label = ''NEGATIVE'', pred_score = 0.55\<rparr> \<and>
   pred_score \<lparr>pred_label = ''NEGATIVE'', pred_score = 0.55\<rparr> < 0.6 \<and>
   (\<exists>response.
      analyze_sentiment (Some (fixed_pipeline \<lparr>pred_label = ''NEGATIVE'', pred_score = 0.55\<rparr>))
        (py ''good'') = Inr response \<and>
      label response = ''neutral'' \<and>
      score response = 0.55 \<and>
      scores response ''positive'' = Some 0.45 \<and>
      scores response ''negative'' = Some 0.55 \<and>
      scores response ''neutral'' = Some 0.45)"
proof -
  let ?r = "\<lparr>pred_label = ''NEGATIVE'', pred_score = 0.55\<rparr>"
  have h1: "\<not> blank (py ''good'')" by (rule not_blank_good)
  have h2: "first_prediction (fixed_pipeline ?r) (py ''good'') = Some ?r"
    by (rule first_prediction_fixed)
  have h3: "pred_score ?r < 0.6" by simp
  show ?thesis
    using C2_unsure_prediction_is_neutral [OF h1 h2 h3] h1 h2 h3
    by auto
qed

text \<open>
  Claim C3. The \<^verbatim>\<open>score\<close> field of the response is the confidence of the prediction,
  unchanged, for every raw label and every confidence (below the threshold as well).
\<close>

theorem C3_score_is_the_confidence:
  assumes "\<not> blank text" and "first_prediction pipe text = Some result"
  shows "\<exists>response. analyze_sentiment (Some pipe) text = Inr response \<and>
     score response = pred_score result"
  using analyze_sentiment_accepted [OF assms] by simp

theorem C3_score_is_the_confidence_witness:
  "\<not> blank (py ''good'') \<and>
   first_prediction (fixed_pipeline \<lparr>pred_label = ''POSITIVE'', pred_score = 0.3\<rparr>) (py ''good'')
     = Some \<lparr>pred_label = ''POSITIVE'', pred_score = 0.3\<rparr> \<and>
   (\<exists>response.
      analyze_sentiment (Some (fixed_pipeline \<lparr>pred_label = ''POSITIVE'', pred_score = 0.3\<rparr>))
        (py ''good'') = Inr response \<and>
      label response = ''neutral'' \<and>
      score response = 0.3)"
proof -
  let ?r = "\<lparr>pred_label = ''POSITIVE'', pred_score = 0.3\<rparr>"
  have h1: "\<not> blank (py ''good'')" by (rule not_blank_good)
  have h2: "first_prediction (fixed_pipeline ?r) (py ''good'') = Some ?r"
    by (rule first_prediction_fixed)
  have "label \<lparr>label = fst (remap ?r), score = pred_score ?r, scores = snd (remap ?r)\<rparr> = ''neutral''"
    by (simp add: remap_def)
  then show ?thesis
    using C3_score_is_the_confidence [OF h1 h2] h1 h2 analyze_sentiment_accepted [OF h1 h2]
    by auto
qed

text \<open>
  Claim C4. In exact arithmetic the three scores sum to 1 when the confidence is at least
  0.6. Below 0.6 the positive and negative entries keep their values, the neutral entry
  is one minus the confidence, and the sum is two minus the confidence, which is not 1.
\<close>

theorem C4_scores_sum:
  assumes "\<not> blank text" and "first_prediction pipe text = Some result"
  shows "\<exists>response. analyze_sentiment (Some pipe) text = Inr response \<and>
     (0.6 \<le> pred_score result \<longrightarrow> scores_sum (scores response) = Some 1) \<and>
     (pred_score result < 0.6 \<longrightarrow>
        scores response ''positive'' =
          Some (if pred_label result = ''POSITIVE'' then pred_score result else 1 - pred_score result) \<and>
        scores response ''negative'' =
          Some (if pred_label result = ''POSITIVE'' then 1 - pred_score result else pred_score result) \<and>
        scores response ''neutral'' = Some (1 - pred_score result) \<and>
        scores_sum (scores response) = Some (2 - pred_score result) \<and>
        scores_sum (scores response) \<noteq> Some 1)"
proof (cases "pred_score result < 0.6")
  case True
  have "scores_sum (snd (remap result)) = Some (2 - pred_score result)"
    using remap_unsure [OF True] by (simp add: scores_sum_3)
  moreover have "2 - pred_score result \<noteq> 1"
    using True by simp
  ultimately show ?thesis
    using analyze_sentiment_accepted [OF assms] remap_unsure [OF True] True by simp
next
  case False
  then have hi: "0.6 \<le> pred_score result" by simp
  have "scores_sum (snd (remap result)) = Some 1"
    using remap_confident [OF hi] by (simp add: scores_sum_3)
  then show ?thesis
    using analyze_sentiment_accepted [OF assms] False by simp
qed

theorem C4_scores_sum_witness:
  "\<not> blank (py ''good'') \<and>
   first_prediction (fixed_pipeline \<lparr>pred_label = ''POSITIVE'', pred_score = 0.95\<rparr>) (py ''good'')
     = Some \<lparr>pred_label = ''POSITIVE'', pred_score = 0.95\<rparr> \<and>
   first_prediction (fixed_pipeline \<lparr>pred_label = ''NEGATIVE'', pred_score = 0.55\<rparr>) (py ''good'')
     = Some \<lparr>pred_label = ''NEGATIVE'', pred_score = 0.55\<rparr> \<and>
   (\<exists>response.
      analyze_sentiment (Some (fixed_pipeline \<lparr>pred_label = ''POSITIVE'', pred_score = 0.95\<rparr>))
        (py ''good'') = Inr response \<and>
      scores_sum (scores response) = Some 1) \<and>
   (\<exists>response.
      analyze_sentiment (Some (fixed_pipeline \<lparr>pred_label = ''NEGATIVE'', pred_score = 0.55\<rparr>))
        (py ''good'') = Inr response \<and>
      scores response ''positive'' = Some 0.45 \<and>
      scores response ''negative'' = Some 0.55 \<and>
      scores response ''neutral'' = Some 0.45 \<and>
      scores_sum (scores response) = Some 1.45)"
proof -
  let ?hi = "\<lparr>pred_label = ''POSITIVE'', pred_score = 0.95\<rparr>"
  let ?lo = "\<lparr>pred_label = ''NEGATIVE'', pred_score = 0.55\<rparr>"
  have h1: "\<not> blank (py ''good'')" by (rule not_blank_good)
  have h2: "first_prediction (fixed_pipeline ?hi) (py ''good'') = Some ?hi"
    by (rule first_prediction_fixed)
  have h3: "first_prediction (fixed_pipeline ?lo) (py ''good'') = Some ?lo"
    by (rule first_prediction_fixed)
  show ?thesis
    using C4_scores_sum [OF h1 h2] C4_scores_sum [OF h1 h3] h1 h2 h3
    by auto
qed

text \<open>
  Claim C5. For an accepted batch (between 1 and 100 texts, model loaded, the pipeline
  answering every text that is not blank), the results are the entries of the texts that
  are not blank, one each and in the order of the input, and \<^verbatim>\<open>total\<close> is the length of
  the results. The example of the claim, four texts of which two are blank, is the
  instance proved after the theorem.
\<close>

theorem C5_batch_keeps_non_blank_texts:
  assumes "texts \<noteq> []" and "length texts \<le> 100"
    and "\<forall>t \<in> set texts. \<not> blank t \<longrightarrow> first_prediction pipe t \<noteq> None"
  shows "\<exists>response. analyze_sentiment_batch (Some pipe) texts = Inr response \<and>
     results response =
       map (\<lambda>t. batch_item t (the (first_prediction pipe t))) (filter (\<lambda>t. \<not> blank t) texts) \<and>
     length (results response) = length (filter (\<lambda>t. \<not> blank t) texts) \<and>
     total_count response = length (results response)"
  using batch_accepted [OF assms] by simp

theorem C5_batch_keeps_non_blank_texts_witness:
  "[py '''', py ''good'', py ''  '', py ''bad''] \<noteq> [] \<and>
   length [py '''', py ''good'', py ''  '', py ''bad''] \<le> 100 \<and>
   blank (py '''') \<and> \<not> blank (py ''good'') \<and> blank (py ''  '') \<and> \<not> blank (py ''bad'') \<and>
   first_prediction (fixed_pipeline \<lparr>pred_label = ''POSITIVE'', pred_score = 0.95\<rparr>)
     (py ''good'') \<noteq> None \<and>
   first_prediction (fixed_pipeline \<lparr>pred_label = ''POSITIVE'', pred_score = 0.95\<rparr>)
     (py ''bad'') \<noteq> None \<and>
   (\<exists>response.
      analyze_sentiment_batch (Some (fixed_pipeline \<lparr>pred_label = ''POSITIVE'', pred_score = 0.95\<rparr>))
        [py '''', py ''good'', py ''  '', py ''bad''] = Inr response \<and>
      map entry_text (results response) = [py ''good'', py ''bad''] \<and>
      length (results response) = 2 \<and>
      total_count response = 2)"
proof -
  let ?p = "fixed_pipeline \<lparr>pred_label = ''POSITIVE'', pred_score = 0.95\<rparr>"
  let ?ts = "[py '''', py ''good'', py ''  '', py ''bad'']"
  have h1: "?ts \<noteq> []" by simp
  have h2: "length ?ts \<le> 100" by simp
  have h3: "\<forall>t \<in> set ?ts. \<not> blank t \<longrightarrow> first_prediction ?p t \<noteq> None"
    by (simp add: first_prediction_fixed)
  have b: "blank (py '''')" "\<not> blank (py ''good'')" "blank (py ''  '')" "\<not> blank (py ''bad'')"
    by (simp_all add: blank_def py_def py_isspace_def)
  have f: "filter (\<lambda>t. \<not> blank t) ?ts = [py ''good'', py ''bad'']"
    using b by simp
  have e: "entry_text (batch_item (py ''good'') r) = py ''good''"
    "entry_text (batch_item (py ''bad'') r) = py ''bad''" for r
    by (simp_all add: batch_item_def py_def split_beta)
  show ?thesis
    using C5_batch_keeps_non_blank_texts [OF h1 h2 h3] h1 h2 b f e
    by (auto simp: first_prediction_fixed)
qed

text \<open>
  Claim C6. In the results of an accepted batch, a surviving text longer than 100 code
  points is echoed as its first 100 code points followed by three dots, and a text of at
  most 100 code points is echoed unchanged.
\<close>

theorem C6_batch_echo:
  assumes "texts \<noteq> []" and "length texts \<le> 100"
    and "\<forall>t \<in> set texts. \<not> blank t \<longrightarrow> first_prediction pipe t \<noteq> None"
  shows "\<exists>response. analyze_sentiment_batch (Some pipe) texts = Inr response \<and>
     map entry_text (results response) =
       map (\<lambda>t. if length t > 100 then take 100 t @ py ''...'' else t)
           (filter (\<lambda>t. \<not> blank t) texts)"
proof -
  have "entry_text (batch_item t r) = (if length t > 100 then take 100 t @ py ''...'' else t)"
    for t r
    by (simp add: batch_item_def split_beta)
  then show ?thesis
    using batch_accepted [OF assms] by (simp add: comp_def)
qed

theorem C6_batch_echo_witness:
  "[replicate 150 97, py ''bad''] \<noteq> [] \<and>
   length [replicate 150 97, py ''bad''] \<le> 100 \<and>
   \<not> blank (replicate 150 97) \<and> \<not> blank (py ''bad'') \<and>
   length (replicate 150 (97::nat)) = 150 \<and>
   first_prediction (fixed_pipeline \<lparr>pred_label = ''POSITIVE'', pred_score = 0.95\<rparr>)
     (replicate 150 97) \<noteq> None \<and>
   first_prediction (fixed_pipeline \<lparr>pred_label = ''POSITIVE'', pred_score = 0.95\<rparr>)
     (py ''bad'') \<noteq> None \<and>
   (\<exists>response.
      analyze_sentiment_batch (Some (fixed_pipeline \<lparr>pred_label = ''POSITIVE'', pred_score = 0.95\<rparr>))
        [replicate 150 97, py ''bad''] = Inr response \<and>
      map entry_text (results response) = [replicate 100 97 @ [46, 46, 46], py ''bad''])"
proof -
  let ?p = "fixed_pipeline \<lparr>pred_label = ''POSITIVE'', pred_score = 0.95\<rparr>"
  let ?ts = "[replicate 150 (97::nat), py ''bad'']"
  have h1: "?ts \<noteq> []" by simp
  have h2: "length ?ts \<le> 100" by simp
  have h3: "\<forall>t \<in> set ?ts. \<not> blank t \<longrightarrow> first_prediction ?p t \<noteq> None"
    by (simp add: first_prediction_fixed)
  have b: "\<not> blank (replicate 150 97)" "\<not> blank (py ''bad'')"
    by (simp_all add: blank_def py_def py_isspace_def list_all_iff)
  have f: "filter (\<lambda>t. \<not> blank t) ?ts = ?ts"
    using b by simp
  have d: "py ''...'' = [46, 46, 46]" "length (py ''bad'') = 3"
    by (simp_all add: py_def)
  show ?thesis
    using C6_batch_echo [OF h1 h2 h3] h1 h2 b f d
    by (auto simp: first_prediction_fixed)
qed

text \<open>
  Claim C7. With the model loaded, \<^verbatim>\<open>analyze_sentiment\<close> answers 400 to every text that is
  empty or whitespace only, and \<^verbatim>\<open>analyze_sentiment_batch\<close> answers 400 to the empty list
  and to every list of more than 100 texts.
\<close>

theorem C7_client_errors:
  "(blank text \<longrightarrow>
      analyze_sentiment (Some pipe) text = Inl (HTTPException 400 ''Text cannot be empty'') \<and>
      http_status (analyze_sentiment (Some pipe) text) = 400) \<and>
   analyze_sentiment_batch (Some pipe) [] = Inl (HTTPException 400 ''No texts provided'') \<and>
   http_status (analyze_sentiment_batch (Some pipe) []) = 400 \<and>
   (length texts > 100 \<longrightarrow>
      analyze_sentiment_batch (Some pipe) texts =
        Inl (HTTPException 400 ''Maximum 100 texts per batch'') \<and>
      http_status (analyze_sentiment_batch (Some pipe) texts) = 400)"
proof -
  have "analyze_sentiment (Some pipe) text = Inl (HTTPException 400 ''Text cannot be empty'')"
    if "blank text"
    using that rejected_iff_blank [of "text"] by (simp add: analyze_sentiment_def)
  moreover have "analyze_sentiment_batch (Some pipe) texts =
      Inl (HTTPException 400 ''Maximum 100 texts per batch'')" if "length texts > 100"
    using that by (auto simp: analyze_sentiment_batch_def)
  moreover have "analyze_sentiment_batch (Some pipe) [] = Inl (HTTPException 400 ''No texts provided'')"
    by (simp add: analyze_sentiment_batch_def)
  ultimately show ?thesis
    by (simp add: http_status_def)
qed

theorem C7_client_errors_witness:
  "blank (py '''') \<and> blank (py '' '') \<and> length (replicate 101 (py ''good'')) > 100 \<and>
   http_status (analyze_sentiment
      (Some (fixed_pipeline \<lparr>pred_label = ''POSITIVE'', pred_score = 0.95\<rparr>)) (py '''')) = 400 \<and>
   http_status (analyze_sentiment
      (Some (fixed_pipeline \<lparr>pred_label = ''POSITIVE'', pred_score = 0.95\<rparr>)) (py '' '')) = 400 \<and>
   http_status (analyze_sentiment_batch
      (Some (fixed_pipeline \<lparr>pred_label = ''POSITIVE'', pred_score = 0.95\<rparr>))
      (replicate 101 (py ''good''))) = 400"
proof -
  let ?p = "fixed_pipeline \<lparr>pred_label = ''POSITIVE'', pred_score = 0.95\<rparr>"
  have h1: "blank (py '''')" by (simp add: blank_def py_def)
  have h2: "blank (py '' '')" by (simp add: blank_def py_def py_isspace_def)
  have h3: "length (replicate 101 (py ''good'')) > 100" by simp
  show ?thesis
    using C7_client_errors [of "py ''''" ?p "replicate 101 (py ''good'')"]
      C7_client_errors [of "py '' ''" ?p "replicate 101 (py ''good'')"] h1 h2 h3
    by (simp add: http_status_def)
qed

text \<open>
  Claim C8. When the model failed to load, the health probe still answers 200, with
  \<^verbatim>\<open>model_loaded\<close> false, and both analysis handlers answer 503.
\<close>

theorem C8_model_not_loaded:
  "health_check None = Inr \<lparr>status = ''healthy'', model_loaded = False\<rparr> \<and>
   http_status (health_check None) = 200 \<and>
   http_status (analyze_sentiment None text) = 503 \<and>
   http_status (analyze_sentiment_batch None texts) = 503"
  by (simp add: health_check_def http_status_def analyze_sentiment_def
      analyze_sentiment_batch_def)

text \<open>
  Claim C9. The check of the model handle comes before the validation of the input: with
  no model, every request to either analysis handler (a blank text, an empty or an
  oversized list included) is answered with the 503 exception, never with 400.
\<close>

theorem C9_not_loaded_before_validation:
  "analyze_sentiment None text = Inl (HTTPException 503 ''Model not loaded'') \<and>
   analyze_sentiment_batch None texts = Inl (HTTPException 503 ''Model not loaded'') \<and>
   http_status (analyze_sentiment None text) \<noteq> 400 \<and>
   http_status (analyze_sentiment_batch None texts) \<noteq> 400"
  by (simp add: http_status_def analyze_sentiment_def analyze_sentiment_batch_def)

text \<open>
  Claim C10. A batch of 1 to 100 texts that are all blank is not rejected: the handler
  answers 200 with no results and a total of 0, without calling the pipeline.
\<close>

theorem C10_all_blank_batch:
  assumes "texts \<noteq> []" and "length texts \<le> 100" and "\<forall>t \<in> set texts. blank t"
  shows "analyze_sentiment_batch (Some pipe) texts = Inr \<lparr>results = [], total_count = 0\<rparr> \<and>
     http_status (analyze_sentiment_batch (Some pipe) texts) = 200"
proof -
  have none: "\<forall>t \<in> set texts. \<not> blank t \<longrightarrow> first_prediction pipe t \<noteq> None"
    using assms(3) by simp
  have "filter (\<lambda>t. \<not> blank t) texts = []"
    using assms(3) by (simp add: filter_empty_conv)
  then show ?thesis
    using batch_accepted [OF assms(1,2) none] by (simp add: http_status_def)
qed

theorem C10_all_blank_batch_witness:
  "[py '''', py ''  ''] \<noteq> [] \<and> length [py '''', py ''  ''] \<le> 100 \<and>
   blank (py '''') \<and> blank (py ''  '') \<and>
   analyze_sentiment_batch (Some (\<lambda>_. None)) [py '''', py ''  ''] =
     Inr \<lparr>results = [], total_count = 0\<rparr> \<and>
   http_status (analyze_sentiment_batch (Some (\<lambda>_. None)) [py '''', py ''  '']) = 200"
proof -
  let ?ts = "[py '''', py ''  '']"
  have h1: "?ts \<noteq> []" by simp
  have h2: "length ?ts \<le> 100" by simp
  have b: "blank (py '''')" "blank (py ''  '')"
    by (simp_all add: blank_def py_def py_isspace_def)
  have h3: "\<forall>t \<in> set ?ts. blank t" using b by simp
  show ?thesis
    using C10_all_blank_batch [OF h1 h2 h3, of "\<lambda>_. None"] h1 h2 b
    by (simp add: http_status_def)
qed

end
